theory Spec2Isabelle
  imports Main "HOL-Library.Word"
begin

section \<open>Dynamic values and decoded messages\<close>

text \<open>
  The client keeps every decoded JSON message and every property value as a Go
  \<^verbatim>\<open>map[string]interface{}\<close> or \<^verbatim>\<open>interface{}\<close>. A dynamic value is one of the kinds
  below. \<open>IInt\<close> is Go's \<^verbatim>\<open>int\<close> (64 bits on the platforms the client is built for),
  \<open>IInt64\<close> is \<^verbatim>\<open>int64\<close>; a \<^verbatim>\<open>float64\<close> is kept as its IEEE-754 bit pattern, since no
  floating-point arithmetic is done on it here. \<open>IOther\<close> stands for a value of any
  other Go type a caller may pass to \<^verbatim>\<open>SetProperty\<close>. A Go map is an association list
  with distinct keys, read with \<open>map_of\<close>. Strings are byte strings, as in Go.
\<close>

datatype float64 = Float64 "64 word"

datatype iface =
    INil
  | IBool bool
  | IInt "64 word"
  | IInt64 "64 word"
  | IFloat float64
  | IStr string
  | ISlice "iface list"
  | IMap "(string \<times> iface) list"
  | IOther string

type_synonym message = "(string \<times> iface) list"

text \<open>
  A handler either returns, panics (an unrecovered panic ends the whole process: no
  \<^verbatim>\<open>recover\<close> stands anywhere in the package), or blocks for ever on a channel
  operation whose partner never comes.
\<close>

datatype chan = ChConnected | ChInitialized | ChSendResponse | ChInterrupt

datatype 'a outcome = Returned 'a | Blocked chan 'a | Panicked string

fun bindP :: "string + 'a \<Rightarrow> ('a \<Rightarrow> 'b outcome) \<Rightarrow> 'b outcome" where
  "bindP (Inl p) k = Panicked p"
| "bindP (Inr x) k = k x"

text \<open>
  The type assertions \<^verbatim>\<open>x.(string)\<close>, \<^verbatim>\<open>x.(bool)\<close>, \<^verbatim>\<open>x.(float64)\<close>, \<^verbatim>\<open>x.(int64)\<close> and
  \<^verbatim>\<open>x.(map[string]interface{})\<close> in their one-result form: they panic on any other
  dynamic type, with a message that names the type found. Indexing a map at an absent key
  yields the nil interface, so an absent key and a JSON \<^verbatim>\<open>null\<close> fail alike.
\<close>

fun typeName :: "iface option \<Rightarrow> string" where
  "typeName None = ''nil''"
| "typeName (Some INil) = ''nil''"
| "typeName (Some (IBool b)) = ''bool''"
| "typeName (Some (IInt i)) = ''int''"
| "typeName (Some (IInt64 i)) = ''int64''"
| "typeName (Some (IFloat x)) = ''float64''"
| "typeName (Some (IStr s)) = ''string''"
| "typeName (Some (ISlice xs)) = ''[]interface {}''"
| "typeName (Some (IMap kvs)) = ''map[string]interface {}''"
| "typeName (Some (IOther s)) = ''other''"

definition conversionPanic :: "iface option \<Rightarrow> string \<Rightarrow> string" where
  "conversionPanic v want =
     ''interface conversion: interface {} is '' @ typeName v @ '', not '' @ want"

fun asString :: "iface option \<Rightarrow> string + string" where
  "asString (Some (IStr s)) = Inr s"
| "asString v = Inl (conversionPanic v ''string'')"

fun asBool :: "iface option \<Rightarrow> string + bool" where
  "asBool (Some (IBool b)) = Inr b"
| "asBool v = Inl (conversionPanic v ''bool'')"

fun asFloat64 :: "iface option \<Rightarrow> string + float64" where
  "asFloat64 (Some (IFloat x)) = Inr x"
| "asFloat64 v = Inl (conversionPanic v ''float64'')"

fun asInt64 :: "iface option \<Rightarrow> string + 64 word" where
  "asInt64 (Some (IInt64 i)) = Inr i"
| "asInt64 v = Inl (conversionPanic v ''int64'')"

fun asMap :: "iface option \<Rightarrow> string + message" where
  "asMap (Some (IMap kvs)) = Inr kvs"
| "asMap v = Inl (conversionPanic v ''map[string]interface {}'')"

text \<open>
  Modelled from the spec: \<^verbatim>\<open>hasKey\<close> is a helper of the package that is not in
  \<^verbatim>\<open>wattpilot.go\<close>. The spec speaks of a key being present in, or absent from, a message
  or the Status Store; \<open>hasKey\<close> is that test, on the map a message or the store is.
\<close>

definition hasKey :: "(string \<rightharpoonup> iface) \<Rightarrow> string \<Rightarrow> bool" where
  "hasKey m k = (m k \<noteq> None)"

section \<open>Encodings of the Go standard library\<close>

text \<open>
  \<^verbatim>\<open>hex.EncodeToString\<close>: two lower-case hexadecimal digits per byte.
\<close>

definition hexdigit :: "nat \<Rightarrow> char" where
  "hexdigit n = ''0123456789abcdef'' ! (n mod 16)"

definition hex_EncodeToString :: "string \<Rightarrow> string" where
  "hex_EncodeToString bs =
     concat (map (\<lambda>c. [hexdigit (of_char c div 16), hexdigit (of_char c mod 16)]) bs)"

text \<open>
  \<^verbatim>\<open>base64.StdEncoding.EncodeToString\<close>: three bytes become four characters of the
  standard alphabet, the last group is padded with \<^verbatim>\<open>=\<close>.
\<close>

definition b64digit :: "nat \<Rightarrow> char" where
  "b64digit n =
     ''ABCDEFGHIJKLMNOPQRSTUVWXYZabcdefghijklmnopqrstuvwxyz0123456789+/'' ! (n mod 64)"

fun base64_EncodeToString :: "string \<Rightarrow> string" where
  "base64_EncodeToString [] = []"
| "base64_EncodeToString [a] =
     (let n = of_char a * 65536 :: nat
      in [b64digit (n div 262144), b64digit (n div 4096), CHR ''='', CHR ''=''])"
| "base64_EncodeToString [a, b] =
     (let n = of_char a * 65536 + of_char b * 256 :: nat
      in [b64digit (n div 262144), b64digit (n div 4096), b64digit (n div 64), CHR ''=''])"
| "base64_EncodeToString (a # b # c # rest) =
     (let n = of_char a * 65536 + of_char b * 256 + of_char c :: nat
      in [b64digit (n div 262144), b64digit (n div 4096), b64digit (n div 64), b64digit n]
         @ base64_EncodeToString rest)"

text \<open>
  \<^verbatim>\<open>fmt.Sprintf("%d", n)\<close> and \<^verbatim>\<open>strconv.Atoi\<close> on a 64-bit \<^verbatim>\<open>int\<close>: decimal digits with
  a leading \<^verbatim>\<open>-\<close> for a negative number; \<^verbatim>\<open>Atoi\<close> accepts one optional sign followed by
  at least one decimal digit and fails when the number does not fit 64 bits.
\<close>

definition digit_char :: "nat \<Rightarrow> char" where
  "digit_char d = char_of (48 + d mod 10)"

fun decimal :: "nat \<Rightarrow> string" where
  "decimal n = (if n < 10 then [digit_char n] else decimal (n div 10) @ [digit_char (n mod 10)])"

declare decimal.simps [simp del]

definition FormatInt :: "int \<Rightarrow> string" where
  "FormatInt i = (if i < 0 then CHR ''-'' # decimal (nat (- i)) else decimal (nat i))"

definition isDigit :: "char \<Rightarrow> bool" where
  "isDigit c = (48 \<le> (of_char c :: nat) \<and> (of_char c :: nat) \<le> 57)"

definition digits_value :: "string \<Rightarrow> nat" where
  "digits_value ds = foldl (\<lambda>n c. 10 * n + (of_char c - 48)) 0 ds"

definition Atoi :: "string \<Rightarrow> 64 word option" where
  "Atoi s =
     (let neg = (s \<noteq> [] \<and> hd s = CHR ''-'');
          ds = (if s \<noteq> [] \<and> (hd s = CHR ''-'' \<or> hd s = CHR ''+'') then tl s else s)
      in if ds = [] \<or> \<not> list_all isDigit ds then None
         else let n = (if neg then - int (digits_value ds) else int (digits_value ds))
              in if - (2 ^ 63) \<le> n \<and> n < 2 ^ 63 then Some (word_of_int n) else None)"

text \<open>
  \<^verbatim>\<open>strconv.ParseBool\<close> accepts exactly twelve spellings.
\<close>

definition ParseBool :: "string \<Rightarrow> bool option" where
  "ParseBool s =
     (if s \<in> set [''1'', ''t'', ''T'', ''TRUE'', ''true'', ''True''] then Some True
      else if s \<in> set [''0'', ''f'', ''F'', ''FALSE'', ''false'', ''False''] then Some False
      else None)"

section \<open>The environment of the session\<close>

text \<open>
  Everything the session calls and \<^verbatim>\<open>wattpilot.go\<close> does not define, as parameters:
  \<^verbatim>\<open>pbkdf2.Key\<close> over SHA-512 (password, salt, iterations, key length), the package's
  helper \<^verbatim>\<open>sha256sum\<close> (the spec's SHA256 of a string), HMAC-SHA256 (key, data),
  \<^verbatim>\<open>json.Marshal\<close>, \<^verbatim>\<open>strconv.ParseFloat\<close>, the \<^verbatim>\<open>%v\<close> text of floats and composite
  values, the random draws for the nonce, and whether a channel operation ever finds its
  partner (a receiver for a send, a sender for a receive).
\<close>

record env =
  pbkdf2_Key :: "string \<Rightarrow> string \<Rightarrow> nat \<Rightarrow> nat \<Rightarrow> string"
  sha256sum :: "string \<Rightarrow> string"
  hmac_sha256 :: "string \<Rightarrow> string \<Rightarrow> string"
  json_Marshal :: "iface \<Rightarrow> string"
  ParseFloat :: "string \<Rightarrow> float64 option"
  Sprint_other :: "iface \<Rightarrow> string"
  rand_Read :: "nat \<Rightarrow> nat"
  partner :: "chan \<Rightarrow> bool"

text \<open>
  Modelled from the spec: \<^verbatim>\<open>randomHexString\<close> is a helper of the package that is not in
  \<^verbatim>\<open>wattpilot.go\<close>. The spec asks for a freshly generated random nonce of \<open>n\<close>
  hexadecimal characters; the draws come from the environment.
\<close>

definition randomHexString :: "env \<Rightarrow> nat \<Rightarrow> string" where
  "randomHexString E n = map (\<lambda>i. hexdigit (rand_Read E i)) [0..<n]"

text \<open>
  \<^verbatim>\<open>fmt.Sprintf("%v", v)\<close>: a string is printed as it is, a boolean as \<^verbatim>\<open>true\<close> or
  \<^verbatim>\<open>false\<close>, an integer in decimal, nil as \<^verbatim>\<open><nil>\<close>; a value of another type by its own
  rendering.
\<close>

fun Sprintf_v :: "env \<Rightarrow> iface \<Rightarrow> string" where
  "Sprintf_v E (IStr s) = s"
| "Sprintf_v E (IBool b) = (if b then ''true'' else ''false'')"
| "Sprintf_v E (IInt i) = FormatInt (sint i)"
| "Sprintf_v E (IInt64 i) = FormatInt (sint i)"
| "Sprintf_v E INil = ''<nil>''"
| "Sprintf_v E (IOther s) = s"
| "Sprintf_v E v = Sprint_other E v"

section \<open>The session\<close>

text \<open>
  The transport: \<open>frames\<close> are the text frames written so far; a \<open>broken\<close> connection
  fails every write.
\<close>

record conn =
  frames :: "string list"
  broken :: bool

datatype error = NotReady string | NotFound string | WriteError

definition WriteClientMessage :: "conn \<Rightarrow> string \<Rightarrow> error option \<times> conn" where
  "WriteClientMessage c data =
     (if broken c then (Some WriteError, c) else (None, c\<lparr>frames := frames c @ [data]\<rparr>))"

text \<open>
  The fields of \<^verbatim>\<open>Wattpilot\<close>, without the leading underscore. The channels, the mutex,
  the logger and the read context are effects of the handlers, not fields here.
\<close>

record Wattpilot =
  requestId :: "64 word"
  secured :: bool
  name :: string
  hostname :: string
  serial :: string
  version :: string
  manufacturer :: string
  devicetype :: string
  protocol :: float64
  token3 :: string
  hashedpassword :: string
  host :: string
  password :: string
  isInitialized :: bool
  isConnected :: bool
  status :: "string \<rightharpoonup> iface"
  currentConnection :: "conn option"

definition New :: "string \<Rightarrow> string \<Rightarrow> Wattpilot" where
  "New h p =
     \<lparr>requestId = 0, secured = False, name = [], hostname = [], serial = [], version = [],
      manufacturer = [], devicetype = [], protocol = Float64 0, token3 = [],
      hashedpassword = [], host = h, password = p, isInitialized = False,
      isConnected = False, status = Map.empty, currentConnection = None\<rparr>"

text \<open>
  What a handler does besides changing the session: a value handed over on a channel,
  a line logged at error level (the level the logger is created with).
\<close>

datatype event = Delivered chan iface | LogError string "iface option"

subsection \<open>Sending\<close>

text \<open>
  \<^verbatim>\<open>getRequestId\<close> is \<^verbatim>\<open>atomic.AddInt64(&w._requestId, 1)\<close>: the counter wraps at 64 bits
  and the new value is returned.
\<close>

definition getRequestId :: "Wattpilot \<Rightarrow> 64 word \<times> Wattpilot" where
  "getRequestId w = (requestId w + 1, w\<lparr>requestId := requestId w + 1\<rparr>)"

text \<open>
  \<^verbatim>\<open>onSendResponse\<close>: a secured message is wrapped before it is written. The connection is
  dereferenced for the write, so a nil connection panics there.
\<close>

definition onSendResponse ::
  "env \<Rightarrow> bool \<Rightarrow> message \<Rightarrow> Wattpilot \<Rightarrow> (error option \<times> Wattpilot) outcome" where
  "onSendResponse E sec msg w =
     bindP (if sec
            then (case asInt64 (map_of msg ''requestId'') of
                    Inl p \<Rightarrow> Inl p
                  | Inr msgId \<Rightarrow>
                      (let payload = json_Marshal E (IMap msg);
                           mac = hmac_sha256 E (hashedpassword w) payload
                       in Inr [(''type'', IStr ''securedMsg''),
                               (''data'', IStr payload),
                               (''requestId'', IStr (FormatInt (sint msgId) @ ''sm'')),
                               (''hmac'', IStr (hex_EncodeToString mac))]))
            else Inr msg)
       (\<lambda>msg'.
          let data = json_Marshal E (IMap msg')
          in (case currentConnection w of
                None \<Rightarrow> Panicked ''invalid memory address or nil pointer dereference''
              | Some c \<Rightarrow>
                  (case WriteClientMessage c data of
                     (err, c') \<Rightarrow> Returned (err, w\<lparr>currentConnection := Some c'\<rparr>))))"

subsection \<open>Inbound events\<close>

type_synonym handler = "env \<Rightarrow> Wattpilot \<Rightarrow> message \<Rightarrow> (Wattpilot \<times> event list) outcome"

definition onEventHello :: handler where
  "onEventHello E w message =
     bindP (if hasKey (map_of message) ''hostname''
            then asString (map_of message ''hostname'')
            else Inr (hostname w)) (\<lambda>v1.
     let w1 = w\<lparr>hostname := v1\<rparr> in
     bindP (if hasKey (map_of message) ''friendly_name''
            then asString (map_of message ''friendly_name'')
            else Inr (hostname w1)) (\<lambda>v2.
     let w2 = w1\<lparr>name := v2\<rparr> in
     bindP (asString (map_of message ''serial'')) (\<lambda>v3.
     let w3 = w2\<lparr>serial := v3\<rparr> in
     bindP (if hasKey (map_of message) ''version''
            then asString (map_of message ''version'')
            else Inr (version w3)) (\<lambda>v4.
     let w4 = w3\<lparr>version := v4\<rparr> in
     bindP (asString (map_of message ''manufacturer'')) (\<lambda>v5.
     let w5 = w4\<lparr>manufacturer := v5\<rparr> in
     bindP (asString (map_of message ''devicetype'')) (\<lambda>v6.
     let w6 = w5\<lparr>devicetype := v6\<rparr> in
     bindP (asFloat64 (map_of message ''protocol'')) (\<lambda>v7.
     let w7 = w6\<lparr>protocol := v7\<rparr> in
     bindP (if hasKey (map_of message) ''secured''
            then asBool (map_of message ''secured'')
            else Inr (secured w7)) (\<lambda>v8.
     let w8 = w7\<lparr>secured := v8\<rparr>;
         pwd_data = pbkdf2_Key E (password w8) (serial w8) 100000 256;
         enc = base64_EncodeToString pwd_data
     in if length enc < 32 then Panicked ''slice bounds out of range''
        else Returned (w8\<lparr>hashedpassword := take 32 enc\<rparr>, [])))))))))"

definition onEventAuthRequired :: handler where
  "onEventAuthRequired E w message =
     bindP (asString (map_of message ''token1'')) (\<lambda>token1.
     bindP (asString (map_of message ''token2'')) (\<lambda>token2.
     let w1 = w\<lparr>token3 := randomHexString E 32\<rparr>;
         hash1 = sha256sum E (token1 @ hashedpassword w1);
         hash = sha256sum E (token3 w1 @ token2 @ hash1);
         response = [(''type'', IStr ''auth''), (''token3'', IStr (token3 w1)),
                     (''hash'', IStr hash)]
     in (case onSendResponse E False response w1 of
           Returned (err, w2) \<Rightarrow> Returned (w2\<lparr>isInitialized := (err \<noteq> None)\<rparr>, [])
         | Blocked ch (err, w2) \<Rightarrow> Blocked ch (w2, [])
         | Panicked p \<Rightarrow> Panicked p)))"

text \<open>
  \<^verbatim>\<open>onEventResponse\<close>. The first test is \<^verbatim>\<open>ok && success.(bool)\<close>: the assertion runs only
  when the key is there. The second test asserts again, whether the key is there or not.
\<close>

definition onEventResponse :: handler where
  "onEventResponse E w message =
     bindP (asString (map_of message ''type'')) (\<lambda>mType.
     let success = map_of message ''success'';
         ok = (success \<noteq> None)
     in bindP (if ok then asBool success else Inr False) (\<lambda>c1.
        if c1 then Returned (w, [])
        else bindP (asBool success) (\<lambda>c2.
          if \<not> c2
          then Returned (w, [LogError ''Failure happened: '' (map_of message ''message'')])
          else if mType = ''response''
          then bindP (asString (map_of message ''message'')) (\<lambda>s.
                 if partner E ChSendResponse
                 then Returned (w, [Delivered ChSendResponse (IStr s)])
                 else Blocked ChSendResponse (w, []))
          else Returned (w, []))))"

definition onEventAuthSuccess :: handler where
  "onEventAuthSuccess E w message =
     (if partner E ChConnected then Returned (w, [Delivered ChConnected (IBool True)])
      else Blocked ChConnected (w, []))"

definition onEventAuthError :: handler where
  "onEventAuthError E w message =
     (if partner E ChConnected
      then Returned (w, [LogError ''Auhtentication error'' (Some (IMap message)),
                         Delivered ChConnected (IBool False)])
      else Blocked ChConnected (w, [LogError ''Auhtentication error'' (Some (IMap message))]))"

definition IsInitialized :: "Wattpilot \<Rightarrow> bool" where
  "IsInitialized w = isInitialized w"

text \<open>
  \<^verbatim>\<open>updateStatus\<close> stores every entry of the batch. The publication of each entry runs in
  a goroutine of its own on the notification hub, which is not part of this file.
\<close>

definition updateStatus :: "Wattpilot \<Rightarrow> message \<Rightarrow> string + Wattpilot" where
  "updateStatus w message =
     (case asMap (map_of message ''status'') of
        Inl p \<Rightarrow> Inl p
      | Inr statusUpdates \<Rightarrow>
          Inr (w\<lparr>status := fold (\<lambda>(k, v) s. s(k \<mapsto> v)) statusUpdates (status w)\<rparr>))"

definition onEventFullStatus :: handler where
  "onEventFullStatus E w message =
     bindP (asBool (map_of message ''partial'')) (\<lambda>isPartial.
     bindP (updateStatus w message) (\<lambda>w1.
       if isPartial then Returned (w1, [])
       else if IsInitialized w1 then Returned (w1, [])
       else if partner E ChInitialized
       then Returned (w1\<lparr>isInitialized := True\<rparr>, [Delivered ChInitialized (IBool True)])
       else Blocked ChInitialized (w1, [])))"

definition onEventDeltaStatus :: handler where
  "onEventDeltaStatus E w message =
     bindP (updateStatus w message) (\<lambda>w1. Returned (w1, []))"

definition onEventClearInverters :: handler where
  "onEventClearInverters E w message = Returned (w, [])"

definition onEventUpdateInverter :: handler where
  "onEventUpdateInverter E w message = Returned (w, [])"

text \<open>
  The handler table built in \<^verbatim>\<open>New\<close>, and what \<^verbatim>\<open>receiveHandler\<close> does with one decoded
  frame: a frame without a type, or of a type that has no handler, is skipped.
\<close>

definition eventHandler :: "string \<Rightarrow> handler option" where
  "eventHandler t =
     (if t = ''hello'' then Some onEventHello
      else if t = ''authRequired'' then Some onEventAuthRequired
      else if t = ''response'' then Some onEventResponse
      else if t = ''authSuccess'' then Some onEventAuthSuccess
      else if t = ''authError'' then Some onEventAuthError
      else if t = ''fullStatus'' then Some onEventFullStatus
      else if t = ''deltaStatus'' then Some onEventDeltaStatus
      else if t = ''clearInverters'' then Some onEventClearInverters
      else if t = ''updateInverter'' then Some onEventUpdateInverter
      else None)"

definition receiveHandler :: handler where
  "receiveHandler E w data =
     (case map_of data ''type'' of
        None \<Rightarrow> Returned (w, [])
      | Some msgType \<Rightarrow>
          bindP (asString (Some msgType)) (\<lambda>t.
            case eventHandler t of
              None \<Rightarrow> Returned (w, [])
            | Some funcCall \<Rightarrow> funcCall E w data))"

subsection \<open>Teardown\<close>

definition disconnectImpl :: "Wattpilot \<Rightarrow> Wattpilot outcome" where
  "disconnectImpl w =
     (if \<not> isInitialized w then Returned w
      else (case currentConnection w of
              None \<Rightarrow> Panicked ''invalid memory address or nil pointer dereference''
            | Some c \<Rightarrow>
                Returned (w\<lparr>isInitialized := False, isConnected := False,
                           currentConnection := None, status := Map.empty\<rparr>)))"

definition Disconnect :: "env \<Rightarrow> Wattpilot \<Rightarrow> Wattpilot outcome" where
  "Disconnect E w =
     (case disconnectImpl (w\<lparr>isConnected := False\<rparr>) of
        Returned w' \<Rightarrow> (if partner E ChInterrupt then Returned w' else Blocked ChInterrupt w')
      | Blocked ch w' \<Rightarrow> Blocked ch w'
      | Panicked p \<Rightarrow> Panicked p)"

subsection \<open>Property access\<close>

text \<open>
  The alias table \<^verbatim>\<open>propertyMap\<close> and the post-processing table \<^verbatim>\<open>PostProcess\<close> are
  generated code that is not in \<^verbatim>\<open>wattpilot.go\<close>; they are parameters. An entry of
  \<^verbatim>\<open>PostProcess\<close> has a wire key (\<^verbatim>\<open>m.key\<close>) and a transform (\<^verbatim>\<open>m.f\<close>) that returns a
  value and an error.
\<close>

datatype postfn = PostFn (pkey: string) (pf: "iface \<Rightarrow> iface \<times> error option")

record tables =
  propertyMap :: "string \<rightharpoonup> string"
  PostProcess :: "string \<rightharpoonup> postfn"

definition LookupAlias :: "tables \<Rightarrow> string \<Rightarrow> string" where
  "LookupAlias G nm = (case propertyMap G nm of None \<Rightarrow> [] | Some v \<Rightarrow> v)"

definition GetProperty :: "tables \<Rightarrow> Wattpilot \<Rightarrow> string \<Rightarrow> error + iface" where
  "GetProperty G w nm =
     (if \<not> isInitialized w then Inl (NotReady ''connection is not valid'')
      else let origName = nm;
               nm1 = (case propertyMap G nm of Some v \<Rightarrow> v | None \<Rightarrow> nm);
               post = PostProcess G origName;
               nm2 = (case post of Some m \<Rightarrow> pkey m | None \<Rightarrow> nm1)
           in if \<not> hasKey (status w) nm2
              then Inl (NotFound (''could not find value of '' @ nm2))
              else let v = (case status w nm2 of Some x \<Rightarrow> x | None \<Rightarrow> INil)
                   in Inr (case post of Some m \<Rightarrow> fst (pf m v) | None \<Rightarrow> v))"

fun transformValue :: "env \<Rightarrow> iface \<Rightarrow> iface" where
  "transformValue E (IInt i) = IInt i"
| "transformValue E (IInt64 i) = IInt64 i"
| "transformValue E (IFloat x) = IFloat x"
| "transformValue E v =
     (let in_value = Sprintf_v E v
      in case Atoi in_value of
           Some out_value \<Rightarrow> IInt out_value
         | None \<Rightarrow>
             (case ParseBool in_value of
                Some out_value \<Rightarrow> IBool out_value
              | None \<Rightarrow>
                  (case ParseFloat E in_value of
                     Some out_value \<Rightarrow> IFloat out_value
                   | None \<Rightarrow> IStr in_value)))"

definition sendUpdate ::
  "env \<Rightarrow> string \<Rightarrow> iface \<Rightarrow> Wattpilot \<Rightarrow> (error option \<times> Wattpilot) outcome" where
  "sendUpdate E nm v w =
     (case getRequestId w of
        (rid, w1) \<Rightarrow>
          onSendResponse E (secured w1)
            [(''type'', IStr ''setValue''), (''requestId'', IInt64 rid),
             (''key'', IStr nm), (''value'', transformValue E v)] w1)"

definition SetProperty ::
  "env \<Rightarrow> string \<Rightarrow> iface \<Rightarrow> Wattpilot \<Rightarrow> (error option \<times> Wattpilot) outcome" where
  "SetProperty E nm v w =
     (if \<not> isInitialized w then Returned (Some (NotReady ''Connection is not valid''), w)
      else if \<not> hasKey (status w) nm
      then Returned (Some (NotFound (''Could not find reference for update on '' @ nm)), w)
      else sendUpdate E nm v w)"

definition RequestStatusUpdate :: "env \<Rightarrow> Wattpilot \<Rightarrow> (error option \<times> Wattpilot) outcome" where
  "RequestStatusUpdate E w =
     (case getRequestId w of
        (rid, w1) \<Rightarrow>
          onSendResponse E (secured w1)
            [(''type'', IStr ''requestFullStatus''), (''requestId'', IInt64 rid)] w1)"

section \<open>The specification's own words\<close>

text \<open>
  The spec derives the session key from the shared secret and the device serial, and
  the challenge hash from the two server tokens, the client nonce and the session key.
\<close>

definition sessionKey :: "env \<Rightarrow> string \<Rightarrow> string \<Rightarrow> string" where
  "sessionKey E secret sn =
     take 32 (base64_EncodeToString (pbkdf2_Key E secret sn 100000 256))"

definition authHash :: "env \<Rightarrow> string \<Rightarrow> string \<Rightarrow> string \<Rightarrow> string \<Rightarrow> string" where
  "authHash E k t1 t2 t3 = sha256sum E (t3 @ t2 @ sha256sum E (t1 @ k))"

text \<open>
  The shape of a \<^verbatim>\<open>hello\<close> message: the serial, the manufacturer and the device type are
  strings, the protocol is a number; the host name, the friendly name, the version and
  the secured flag may be missing.
\<close>

fun isString :: "iface option \<Rightarrow> bool" where
  "isString (Some (IStr s)) = True"
| "isString v = False"

fun optString :: "iface option \<Rightarrow> bool" where
  "optString None = True"
| "optString v = isString v"

fun isFloat :: "iface option \<Rightarrow> bool" where
  "isFloat (Some (IFloat x)) = True"
| "isFloat v = False"

fun optBool :: "iface option \<Rightarrow> bool" where
  "optBool None = True"
| "optBool (Some (IBool b)) = True"
| "optBool v = False"

definition isHello :: "message \<Rightarrow> bool" where
  "isHello m =
     (optString (map_of m ''hostname'') \<and> optString (map_of m ''friendly_name'') \<and>
      isString (map_of m ''serial'') \<and> optString (map_of m ''version'') \<and>
      isString (map_of m ''manufacturer'') \<and> isString (map_of m ''devicetype'') \<and>
      isFloat (map_of m ''protocol'') \<and> optBool (map_of m ''secured''))"

text \<open>
  The spec's coercion of a value to the narrowest wire type: integer, else boolean,
  else floating point, else string, tried on the text of the value.
\<close>

definition coerce :: "env \<Rightarrow> string \<Rightarrow> iface" where
  "coerce E s =
     (case Atoi s of
        Some i \<Rightarrow> IInt i
      | None \<Rightarrow>
          (case ParseBool s of
             Some b \<Rightarrow> IBool b
           | None \<Rightarrow> (case ParseFloat E s of Some x \<Rightarrow> IFloat x | None \<Rightarrow> IStr s)))"


text \<open>
  The spec's resolution of a property name through the alias table: the wire key of a
  known alias, the name itself otherwise.
\<close>

definition resolveAlias :: "tables \<Rightarrow> string \<Rightarrow> string" where
  "resolveAlias G nm = (case propertyMap G nm of Some k \<Rightarrow> k | None \<Rightarrow> nm)"

section \<open>Sample sessions and messages\<close>

text \<open>
  Concrete data on which the theorems below are evaluated. In \<open>sampleEnv\<close> simple
  functions stand in for the digests, the serialiser and the float parser; its \<^verbatim>\<open>%v\<close>
  rendering prints the float \<^verbatim>\<open>6.0\<close> as \<^verbatim>\<open>6\<close>, as Go does. The floats are given by their
  bit patterns: \<^verbatim>\<open>2.0\<close>, \<^verbatim>\<open>6.0\<close> and \<^verbatim>\<open>6.5\<close>.
\<close>

fun sampleMarshal :: "iface \<Rightarrow> string" where
  "sampleMarshal INil = ''null''"
| "sampleMarshal (IBool b) = (if b then ''true'' else ''false'')"
| "sampleMarshal (IInt i) = FormatInt (sint i)"
| "sampleMarshal (IInt64 i) = FormatInt (sint i)"
| "sampleMarshal (IFloat x) = ''<float>''"
| "sampleMarshal (IStr s) = [CHR 0x22] @ s @ [CHR 0x22]"
| "sampleMarshal (ISlice xs) = ''['' @ concat (map (\<lambda>x. sampleMarshal x @ '','') xs) @ '']''"
| "sampleMarshal (IMap kvs) =
     ''{'' @ concat (map (\<lambda>kv. [CHR 0x22] @ fst kv @ [CHR 0x22] @ '':''
                                @ sampleMarshal (snd kv) @ '','') kvs) @ ''}''"
| "sampleMarshal (IOther s) = s"

definition float_2 :: float64 where "float_2 = Float64 4611686018427387904"

definition float_6 :: float64 where "float_6 = Float64 4618441417868443648"

definition float_6_5 :: float64 where "float_6_5 = Float64 4619004367821864960"

definition sampleEnv :: env where
  "sampleEnv =
     \<lparr>pbkdf2_Key = (\<lambda>p s i n. replicate n (CHR ''k'')),
      sha256sum = (\<lambda>s. ''sha256('' @ s @ '')''),
      hmac_sha256 = (\<lambda>k d. take 2 k @ take 2 d),
      json_Marshal = sampleMarshal,
      ParseFloat = (\<lambda>s. if s = ''6.5'' then Some float_6_5 else None),
      Sprint_other = (\<lambda>v. if v = IFloat float_6 then ''6'' else ''?''),
      rand_Read = (\<lambda>i. 7 * i + 3),
      partner = (\<lambda>ch. True)\<rparr>"

definition quietEnv :: env where
  "quietEnv = sampleEnv\<lparr>partner := (\<lambda>ch. False)\<rparr>"

text \<open>
  Sample tables: the alias \<^verbatim>\<open>power\<close> for the wire key \<^verbatim>\<open>nrg\<close>, and a post-processing entry
  that reads \<^verbatim>\<open>voltage1\<close> as the first element of \<^verbatim>\<open>nrg\<close>.
\<close>

definition sampleTables :: tables where
  "sampleTables =
     \<lparr>propertyMap = [''power'' \<mapsto> ''nrg''],
      PostProcess =
        [''voltage1'' \<mapsto>
           PostFn ''nrg'' (\<lambda>v. (case v of ISlice (x # xs) \<Rightarrow> x | _ \<Rightarrow> INil, None))]\<rparr>"

definition sampleConn :: conn where
  "sampleConn = \<lparr>frames = [], broken = False\<rparr>"

definition brokenConn :: conn where
  "brokenConn = \<lparr>frames = [], broken = True\<rparr>"

definition sampleStatus :: "string \<rightharpoonup> iface" where
  "sampleStatus = [''amp'' \<mapsto> IFloat float_6, ''nrg'' \<mapsto> ISlice [IFloat float_2]]"

definition freshSession :: Wattpilot where
  "freshSession = (New ''wattpilot.local'' ''secret'')\<lparr>currentConnection := Some sampleConn\<rparr>"

definition connectedSession :: Wattpilot where
  "connectedSession =
     freshSession\<lparr>serial := ''S1'', name := ''garage'',
        hashedpassword := ''a2tra2tra2tra2tra2tra2tra2tra2tr'', isConnected := True,
        status := sampleStatus\<rparr>"

definition initializedSession :: Wattpilot where
  "initializedSession = connectedSession\<lparr>isInitialized := True\<rparr>"

definition tornDownSession :: Wattpilot where
  "tornDownSession =
     connectedSession\<lparr>isConnected := False, status := Map.empty, currentConnection := None\<rparr>"

definition sampleHello :: message where
  "sampleHello =
     [(''type'', IStr ''hello''), (''serial'', IStr ''S1''), (''manufacturer'', IStr ''M''),
      (''devicetype'', IStr ''D''), (''protocol'', IFloat float_2)]"

definition sampleAuthRequired :: message where
  "sampleAuthRequired =
     [(''type'', IStr ''authRequired''), (''token1'', IStr ''t1''), (''token2'', IStr ''t2'')]"



definition sampleDelta :: message where
  "sampleDelta = [(''type'', IStr ''deltaStatus''), (''status'', IMap [(''fna'', IStr ''garage'')])]"

section \<open>Facts about the encodings\<close>

lemma of_char_digit_char: "(of_char (digit_char d) :: nat) = 48 + d mod 10"
proof -
  have "(48 + d mod 10) mod 256 = 48 + d mod 10" by simp
  then show ?thesis by (simp add: digit_char_def)
qed

lemma isDigit_digit_char: "isDigit (digit_char d)"
  by (simp add: isDigit_def of_char_digit_char)

lemma decimal_digits: "list_all isDigit (decimal n)"
proof (induction n rule: decimal.induct)
  case (1 n)
  then show ?case
    by (subst decimal.simps) (simp add: isDigit_digit_char)
qed

lemma decimal_nonempty: "decimal n \<noteq> []"
  by (subst decimal.simps) simp

lemma digits_value_snoc:
  "digits_value (ds @ [c]) = 10 * digits_value ds + (of_char c - 48)"
  by (simp add: digits_value_def)

lemma digits_value_decimal: "digits_value (decimal n) = n"
proof (induction n rule: decimal.induct)
  case (1 n)
  show ?case
  proof (cases "n < 10")
    case True
    then show ?thesis
      by (subst decimal.simps) (simp add: digits_value_def of_char_digit_char)
  next
    case False
    with 1 have "digits_value (decimal (n div 10)) = n div 10" by simp
    with False show ?thesis
      by (subst decimal.simps) (simp add: digits_value_snoc of_char_digit_char)
  qed
qed

lemma isDigit_not_sign: "isDigit c \<Longrightarrow> c \<noteq> CHR ''-'' \<and> c \<noteq> CHR ''+''"
  by (auto simp add: isDigit_def)

lemma hd_decimal_not_sign: "hd (decimal n) \<noteq> CHR ''-'' \<and> hd (decimal n) \<noteq> CHR ''+''"
proof -
  have "hd (decimal n) \<in> set (decimal n)" by (simp add: decimal_nonempty)
  with decimal_digits [of n] have "isDigit (hd (decimal n))" by (simp add: list_all_iff)
  then show ?thesis by (rule isDigit_not_sign)
qed

text \<open>
  \<^verbatim>\<open>Atoi\<close> reads back what \<^verbatim>\<open>%d\<close> printed, for every 64-bit integer.
\<close>

lemma Atoi_FormatInt:
  assumes "- (2 ^ 63) \<le> i" and "i < 2 ^ 63"
  shows "Atoi (FormatInt i) = Some (word_of_int i)"
proof (cases "i < 0")
  case True
  with assms show ?thesis
    by (simp add: Atoi_def FormatInt_def decimal_nonempty decimal_digits digits_value_decimal)
next
  case False
  with assms hd_decimal_not_sign [of "nat i"] show ?thesis
    by (simp add: Atoi_def FormatInt_def decimal_nonempty decimal_digits digits_value_decimal)
qed

lemma Atoi_FormatInt_sint: "Atoi (FormatInt (sint (i :: 64 word))) = Some i"
proof -
  have "- (2 ^ 63) \<le> sint i" using sint_ge [of i] by simp
  moreover have "sint i < 2 ^ 63" using sint_lt [of i] by simp
  ultimately show ?thesis by (simp add: Atoi_FormatInt)
qed

lemma Atoi_six: "Atoi ''6'' = Some 6"
  by (simp add: Atoi_def isDigit_def digits_value_def)

lemma ParseBool_true: "Atoi ''true'' = None \<and> ParseBool ''true'' = Some True"
  by (simp add: Atoi_def isDigit_def ParseBool_def)

lemma length_base64:
  "length (base64_EncodeToString bs) = 4 * ((length bs + 2) div 3)"
proof (induction bs rule: base64_EncodeToString.induct)
  case (4 a b c rest)
  have "(length (a # b # c # rest) + 2) div 3 = Suc ((length rest + 2) div 3)" by simp
  with 4 show ?case by (simp add: Let_def)
qed (simp_all add: Let_def)

lemma base64_append:
  "length xs mod 3 = 0 \<Longrightarrow>
   base64_EncodeToString (xs @ ys) = base64_EncodeToString xs @ base64_EncodeToString ys"
  by (induction xs rule: base64_EncodeToString.induct) (simp_all add: Let_def)

lemma hexdigit_lower: "hexdigit n \<in> set ''0123456789abcdef''"
  unfolding hexdigit_def by (rule nth_mem) simp

lemma randomHexString_shape:
  "length (randomHexString E n) = n \<and> set (randomHexString E n) \<subseteq> set ''0123456789abcdef''"
  using hexdigit_lower by (auto simp add: randomHexString_def simp del: set_simps)


section \<open>Facts about sending and the status store\<close>

lemma onSendResponse_plain:
  "currentConnection w = Some c \<Longrightarrow>
   onSendResponse E False msg w =
     Returned (if broken c then (Some WriteError, w)
               else (None, w\<lparr>currentConnection :=
                                Some (c\<lparr>frames := frames c @ [json_Marshal E (IMap msg)]\<rparr>)\<rparr>))"
  by (simp add: onSendResponse_def WriteClientMessage_def)

lemma onSendResponse_secured:
  "currentConnection w = Some c \<Longrightarrow> map_of msg ''requestId'' = Some (IInt64 rid) \<Longrightarrow>
   onSendResponse E True msg w =
     Returned (if broken c then (Some WriteError, w)
               else (None, w\<lparr>currentConnection :=
                  Some (c\<lparr>frames := frames c @
                    [json_Marshal E (IMap
                       [(''type'', IStr ''securedMsg''),
                        (''data'', IStr (json_Marshal E (IMap msg))),
                        (''requestId'', IStr (FormatInt (sint rid) @ ''sm'')),
                        (''hmac'', IStr (hex_EncodeToString
                           (hmac_sha256 E (hashedpassword w) (json_Marshal E (IMap msg)))))])]\<rparr>)\<rparr>))"
  by (simp add: onSendResponse_def WriteClientMessage_def Let_def)

lemma sendUpdate_result:
  "currentConnection w = Some c \<Longrightarrow>
   \<exists>w'. sendUpdate E nm v w = Returned (if broken c then Some WriteError else None, w') \<and>
        requestId w' = requestId w + 1 \<and> isInitialized w' = isInitialized w \<and>
        status w' = status w"
  by (cases "secured w")
     (simp_all add: sendUpdate_def getRequestId_def onSendResponse_plain onSendResponse_secured)

lemma fold_status_dom:
  "dom (fold (\<lambda>(k, v) s. s(k \<mapsto> v)) kvs s) = dom s \<union> fst ` set kvs"
  by (induction kvs arbitrary: s) auto

lemma updateStatus_observes:
  "map_of message ''status'' = Some (IMap batch) \<Longrightarrow>
   \<exists>w1. updateStatus w message = Inr w1 \<and> dom (status w1) = dom (status w) \<union> fst ` set batch \<and>
        isInitialized w1 = isInitialized w \<and> currentConnection w1 = currentConnection w"
  by (simp add: updateStatus_def fold_status_dom)

section \<open>The handshake\<close>

lemma isString_asString: "isString v \<Longrightarrow> \<exists>s. asString v = Inr s"
  by (cases v rule: isString.cases) simp_all

lemma isFloat_asFloat64: "isFloat v \<Longrightarrow> \<exists>x. asFloat64 v = Inr x"
  by (cases v rule: isFloat.cases) simp_all

lemma optString_field:
  "optString (map_of m k) \<Longrightarrow>
   (if hasKey (map_of m) k then asString (map_of m k) else Inr d) =
   Inr (case map_of m k of Some (IStr s) \<Rightarrow> s | _ \<Rightarrow> d)"
  by (cases "map_of m k") (auto simp add: hasKey_def split: iface.splits)

lemma optBool_field:
  "optBool (map_of m k) \<Longrightarrow>
   (if hasKey (map_of m) k then asBool (map_of m k) else Inr d) =
   Inr (case map_of m k of Some (IBool b) \<Rightarrow> b | _ \<Rightarrow> d)"
  by (cases "map_of m k") (auto simp add: hasKey_def split: iface.splits)

text \<open>
  A well-formed \<^verbatim>\<open>hello\<close> is handled without a panic, and leaves the derived key in the
  session.
\<close>

lemma onEventHello_returns:
  assumes hello: "isHello m"
    and sn: "map_of m ''serial'' = Some (IStr sn)"
    and len: "length (pbkdf2_Key E (password w) sn 100000 256) = 256"
  shows "\<exists>w1. onEventHello E w m = Returned (w1, []) \<and>
           hashedpassword w1 = sessionKey E (password w) sn \<and>
           serial w1 = sn \<and> password w1 = password w \<and>
           currentConnection w1 = currentConnection w \<and> isInitialized w1 = isInitialized w"
proof -
  from hello have f:
    "optString (map_of m ''hostname'')" "optString (map_of m ''friendly_name'')"
    "optString (map_of m ''version'')" "optBool (map_of m ''secured'')"
    by (simp_all add: isHello_def)
  from hello obtain v5 where v5: "asString (map_of m ''manufacturer'') = Inr v5"
    using isString_asString [of "map_of m ''manufacturer''"] by (auto simp add: isHello_def)
  from hello obtain v6 where v6: "asString (map_of m ''devicetype'') = Inr v6"
    using isString_asString [of "map_of m ''devicetype''"] by (auto simp add: isHello_def)
  from hello obtain v7 where v7: "asFloat64 (map_of m ''protocol'') = Inr v7"
    using isFloat_asFloat64 [of "map_of m ''protocol''"] by (auto simp add: isHello_def)
  have enc: "\<not> length (base64_EncodeToString (pbkdf2_Key E (password w) sn 100000 256)) < 32"
    by (simp add: length_base64 len)
  show ?thesis
    unfolding onEventHello_def
    using enc
    by (simp add: optString_field optBool_field f sn v5 v6 v7 Let_def sessionKey_def
        split del: if_split)
qed

text \<open>
  C1. A well-formed \<^verbatim>\<open>hello\<close> that carries the serial leaves as session key the first 32
  characters of the base64 text of the 256 bytes that PBKDF2 derives from the shared
  secret, with the serial as salt, in 100000 iterations (the derivation returns as many
  bytes as it is asked for). On \<^verbatim>\<open>authRequired\<close>, in any
  session that holds this key and a working connection, the client draws a nonce of 32
  hexadecimal characters and writes exactly the \<^verbatim>\<open>auth\<close> message with that nonce and
  the hash SHA256(token3 + token2 + SHA256(token1 + key)). Key and message are functions
  of the secret, the serial and the three tokens alone.
\<close>

theorem handshake_cryptography:
  assumes hello: "isHello hello" and sn: "map_of hello ''serial'' = Some (IStr sn)"
    and len: "length (pbkdf2_Key E (password w) sn 100000 256) = 256"
    and t1: "map_of auth ''token1'' = Some (IStr t1)"
    and t2: "map_of auth ''token2'' = Some (IStr t2)"
  shows "\<exists>w1. onEventHello E w hello = Returned (w1, []) \<and>
           hashedpassword w1 = sessionKey E (password w) sn \<and>
           length (hashedpassword w1) = 32 \<and>
           currentConnection w1 = currentConnection w \<and>
           (\<forall>w' c. hashedpassword w' = hashedpassword w1 \<and>
                   currentConnection w' = Some c \<and> \<not> broken c \<longrightarrow>
              (\<exists>w2. onEventAuthRequired E w' auth = Returned (w2, []) \<and>
                    token3 w2 = randomHexString E 32 \<and> length (token3 w2) = 32 \<and>
                    set (token3 w2) \<subseteq> set ''0123456789abcdef'' \<and>
                    currentConnection w2 =
                      Some (c\<lparr>frames := frames c @
                        [json_Marshal E (IMap
                           [(''type'', IStr ''auth''), (''token3'', IStr (token3 w2)),
                            (''hash'', IStr (authHash E (sessionKey E (password w) sn)
                                               t1 t2 (token3 w2)))])]\<rparr>)))"
proof -
  from onEventHello_returns [OF hello sn len] obtain w1 where w1:
    "onEventHello E w hello = Returned (w1, [])"
    "hashedpassword w1 = sessionKey E (password w) sn"
    "currentConnection w1 = currentConnection w"
    by blast
  have len32: "length (sessionKey E (password w) sn) = 32"
    by (simp add: sessionKey_def length_base64 len)
  have auth: "\<exists>w2. onEventAuthRequired E w' auth = Returned (w2, []) \<and>
        token3 w2 = randomHexString E 32 \<and> length (token3 w2) = 32 \<and>
        set (token3 w2) \<subseteq> set ''0123456789abcdef'' \<and>
        currentConnection w2 =
          Some (c\<lparr>frames := frames c @
            [json_Marshal E (IMap
               [(''type'', IStr ''auth''), (''token3'', IStr (token3 w2)),
                (''hash'', IStr (authHash E (sessionKey E (password w) sn)
                                   t1 t2 (token3 w2)))])]\<rparr>)"
    if "hashedpassword w' = hashedpassword w1" "currentConnection w' = Some c" "\<not> broken c"
    for w' c
    using that w1(2) randomHexString_shape [of E 32]
    by (simp add: onEventAuthRequired_def t1 t2 Let_def onSendResponse_plain authHash_def
        del: set_simps)
  show ?thesis
  proof (rule exI [of _ w1], intro conjI)
    show "onEventHello E w hello = Returned (w1, [])" by (rule w1(1))
    show "hashedpassword w1 = sessionKey E (password w) sn" by (rule w1(2))
    show "length (hashedpassword w1) = 32" using w1(2) len32 by simp
    show "currentConnection w1 = currentConnection w" by (rule w1(3))
    show "\<forall>w' c. hashedpassword w' = hashedpassword w1 \<and>
                   currentConnection w' = Some c \<and> \<not> broken c \<longrightarrow>
              (\<exists>w2. onEventAuthRequired E w' auth = Returned (w2, []) \<and>
                    token3 w2 = randomHexString E 32 \<and> length (token3 w2) = 32 \<and>
                    set (token3 w2) \<subseteq> set ''0123456789abcdef'' \<and>
                    currentConnection w2 =
                      Some (c\<lparr>frames := frames c @
                        [json_Marshal E (IMap
                           [(''type'', IStr ''auth''), (''token3'', IStr (token3 w2)),
                            (''hash'', IStr (authHash E (sessionKey E (password w) sn)
                                               t1 t2 (token3 w2)))])]\<rparr>))"
      using auth by blast
  qed
qed

text \<open>
  The sample run: the stand-in key derivation yields 256 bytes \<^verbatim>\<open>k\<close>, whose base64 text
  starts with eight groups \<^verbatim>\<open>a2tr\<close>.
\<close>

lemma base64_sample: "base64_EncodeToString ''kkkkkkkkkkkkkkkkkkkkkkkk'' = ''a2tra2tra2tra2tra2tra2tra2tra2tr''"
  by (simp add: b64digit_def)

lemma replicate_sample: "replicate 24 (CHR ''k'') = ''kkkkkkkkkkkkkkkkkkkkkkkk''"
  by (simp add: eval_nat_numeral)

lemma sessionKey_sample:
  "sessionKey sampleEnv ''secret'' ''S1'' = ''a2tra2tra2tra2tra2tra2tra2tra2tr''"
proof -
  have split: "replicate 256 (CHR ''k'') = replicate 24 (CHR ''k'') @ replicate 232 (CHR ''k'')"
    by (simp add: replicate_add [symmetric])
  have "base64_EncodeToString (replicate 256 (CHR ''k'')) =
        ''a2tra2tra2tra2tra2tra2tra2tra2tr'' @ base64_EncodeToString (replicate 232 (CHR ''k''))"
    by (simp only: split replicate_sample base64_sample [symmetric]) (simp add: base64_append)
  then show ?thesis by (simp add: sessionKey_def sampleEnv_def)
qed

lemma randomHexString_sample:
  "randomHexString sampleEnv 32 = ''3a18f6d4b2907e5c3a18f6d4b2907e5c''"
  by code_simp

theorem handshake_cryptography_witness:
  "isHello sampleHello \<and>
   (\<exists>w1 w2. onEventHello sampleEnv freshSession sampleHello = Returned (w1, []) \<and>
       hashedpassword w1 = ''a2tra2tra2tra2tra2tra2tra2tra2tr'' \<and>
       onEventAuthRequired sampleEnv w1 sampleAuthRequired = Returned (w2, []) \<and>
       token3 w2 = ''3a18f6d4b2907e5c3a18f6d4b2907e5c'' \<and>
       currentConnection w2 =
         Some \<lparr>frames =
           [json_Marshal sampleEnv (IMap
              [(''type'', IStr ''auth''),
               (''token3'', IStr ''3a18f6d4b2907e5c3a18f6d4b2907e5c''),
               (''hash'', IStr (authHash sampleEnv ''a2tra2tra2tra2tra2tra2tra2tra2tr''
                                  ''t1'' ''t2'' ''3a18f6d4b2907e5c3a18f6d4b2907e5c''))])],
           broken = False\<rparr>)"
proof -
  have h: "isHello sampleHello" by (simp add: isHello_def sampleHello_def)
  have sn: "map_of sampleHello ''serial'' = Some (IStr ''S1'')" by (simp add: sampleHello_def)
  have len: "length (pbkdf2_Key sampleEnv (password freshSession) ''S1'' 100000 256) = 256"
    by (simp add: sampleEnv_def)
  have t1: "map_of sampleAuthRequired ''token1'' = Some (IStr ''t1'')"
    by (simp add: sampleAuthRequired_def)
  have t2: "map_of sampleAuthRequired ''token2'' = Some (IStr ''t2'')"
    by (simp add: sampleAuthRequired_def)
  have pw: "password freshSession = ''secret''" by (simp add: freshSession_def New_def)
  have cc: "currentConnection freshSession = Some sampleConn \<and> \<not> broken sampleConn \<and>
            frames sampleConn = []"
    by (simp add: freshSession_def sampleConn_def)
  from handshake_cryptography [OF h sn len t1 t2] obtain w1 where w1:
    "onEventHello sampleEnv freshSession sampleHello = Returned (w1, [])"
    "hashedpassword w1 = sessionKey sampleEnv (password freshSession) ''S1''"
    "currentConnection w1 = currentConnection freshSession"
    and auth: "\<forall>w' c. hashedpassword w' = hashedpassword w1 \<and>
                   currentConnection w' = Some c \<and> \<not> broken c \<longrightarrow>
              (\<exists>w2. onEventAuthRequired sampleEnv w' sampleAuthRequired = Returned (w2, []) \<and>
                    token3 w2 = randomHexString sampleEnv 32 \<and> length (token3 w2) = 32 \<and>
                    set (token3 w2) \<subseteq> set ''0123456789abcdef'' \<and>
                    currentConnection w2 =
                      Some (c\<lparr>frames := frames c @
                        [json_Marshal sampleEnv (IMap
                           [(''type'', IStr ''auth''), (''token3'', IStr (token3 w2)),
                            (''hash'', IStr (authHash sampleEnv
                                (sessionKey sampleEnv (password freshSession) ''S1'')
                                ''t1'' ''t2'' (token3 w2)))])]\<rparr>))"
    by blast
  from auth [THEN spec, THEN spec, of w1 sampleConn] w1(3) cc obtain w2 where w2:
    "onEventAuthRequired sampleEnv w1 sampleAuthRequired = Returned (w2, [])"
    "token3 w2 = randomHexString sampleEnv 32"
    "currentConnection w2 =
       Some (sampleConn\<lparr>frames := frames sampleConn @
          [json_Marshal sampleEnv (IMap
             [(''type'', IStr ''auth''), (''token3'', IStr (token3 w2)),
              (''hash'', IStr (authHash sampleEnv
                  (sessionKey sampleEnv (password freshSession) ''S1'')
                  ''t1'' ''t2'' (token3 w2)))])]\<rparr>)"
    by auto
  have c2: "sampleConn\<lparr>frames := frames sampleConn @ [x]\<rparr> = \<lparr>frames = [x], broken = False\<rparr>"
    for x by (simp add: sampleConn_def)
  show ?thesis
  proof (rule conjI [OF h], rule exI [of _ w1], rule exI [of _ w2], intro conjI)
    show "onEventHello sampleEnv freshSession sampleHello = Returned (w1, [])" by (rule w1(1))
    show "hashedpassword w1 = ''a2tra2tra2tra2tra2tra2tra2tra2tr''"
      using w1(2) pw sessionKey_sample by simp
    show "onEventAuthRequired sampleEnv w1 sampleAuthRequired = Returned (w2, [])" by (rule w2(1))
    show "token3 w2 = ''3a18f6d4b2907e5c3a18f6d4b2907e5c''"
      using w2(2) randomHexString_sample by simp
    show "currentConnection w2 =
         Some \<lparr>frames =
           [json_Marshal sampleEnv (IMap
              [(''type'', IStr ''auth''),
               (''token3'', IStr ''3a18f6d4b2907e5c3a18f6d4b2907e5c''),
               (''hash'', IStr (authHash sampleEnv ''a2tra2tra2tra2tra2tra2tra2tra2tr''
                                  ''t1'' ''t2'' ''3a18f6d4b2907e5c3a18f6d4b2907e5c''))])],
           broken = False\<rparr>"
      using w2(3) w2(2) pw c2 by (simp only: randomHexString_sample sessionKey_sample)
  qed
qed

section \<open>The response handler\<close>

text \<open>
  What holds of \<^verbatim>\<open>onEventResponse\<close>: a response whose success field is false is logged
  and nothing is handed over.
\<close>

lemma onEventResponse_failure_logged:
  "map_of message ''type'' = Some (IStr t) \<Longrightarrow>
   map_of message ''success'' = Some (IBool False) \<Longrightarrow>
   onEventResponse E w message =
     Returned (w, [LogError ''Failure happened: '' (map_of message ''message'')])"
  by (simp add: onEventResponse_def)

text \<open>
  C2 fails on the code. A response whose success field is true returns at the first
  test, whatever its type: nothing is ever handed over on the response channel, also when
  a consumer is waiting there.
\<close>

theorem onEventResponse_success_returns_early:
  "map_of message ''type'' = Some (IStr t) \<Longrightarrow>
   map_of message ''success'' = Some (IBool True) \<Longrightarrow>
   onEventResponse E w message = Returned (w, [])"
  by (simp add: onEventResponse_def)

theorem onEventResponse_success_returns_early_witness:
  "onEventResponse sampleEnv initializedSession
     [(''type'', IStr ''response''), (''success'', IBool True), (''message'', IStr ''ok'')]
   = Returned (initializedSession, []) \<and> partner sampleEnv ChSendResponse"
  using onEventResponse_success_returns_early
    [of "[(''type'', IStr ''response''), (''success'', IBool True), (''message'', IStr ''ok'')]"
        "''response''" sampleEnv initializedSession]
  by (simp add: sampleEnv_def)

text \<open>
  C3 fails on the code. A response without a success field passes the first test and
  panics at the second, where the nil interface is asserted to be a boolean.
\<close>

theorem onEventResponse_no_success_panics:
  "map_of message ''type'' = Some (IStr t) \<Longrightarrow>
   map_of message ''success'' = None \<Longrightarrow>
   onEventResponse E w message =
     Panicked ''interface conversion: interface {} is nil, not bool''"
  by (simp add: onEventResponse_def conversionPanic_def)

theorem onEventResponse_no_success_panics_witness:
  "onEventResponse sampleEnv initializedSession [(''type'', IStr ''response'')]
   = Panicked ''interface conversion: interface {} is nil, not bool''"
  using onEventResponse_no_success_panics
    [of "[(''type'', IStr ''response'')]" "''response''" sampleEnv initializedSession]
  by simp

section \<open>The initialized flag\<close>

text \<open>
  What each handler leaves of the initialized flag and of the connection, whatever the
  message.
\<close>

lemma bindP_Returned: "(bindP x k = Returned r) = (\<exists>y. x = Inr y \<and> k y = Returned r)"
  by (cases x) auto

lemma bindP_ReturnedE:
  "bindP x k = Returned r \<Longrightarrow> (\<And>y. k y = Returned r \<Longrightarrow> P) \<Longrightarrow> P"
  by (cases x) auto

lemma onEventHello_keeps:
  assumes "onEventHello E w m = Returned (w', evs)"
  shows "isInitialized w' = isInitialized w \<and> currentConnection w' = currentConnection w"
  using assms unfolding onEventHello_def Let_def
  by (elim bindP_ReturnedE) (auto split: if_splits)

text \<open>
  What \<^verbatim>\<open>onEventAuthRequired\<close> leaves in the flag is whether the write of the auth
  response failed.
\<close>

lemma onEventAuthRequired_flag_general:
  assumes "onEventAuthRequired E w m = Returned (w', evs)"
  shows "\<exists>c. currentConnection w = Some c \<and> isInitialized w' = broken c \<and>
             currentConnection w' \<noteq> None"
proof (cases "currentConnection w")
  case None
  then have "onSendResponse E False msg (w\<lparr>token3 := x\<rparr>) =
             Panicked ''invalid memory address or nil pointer dereference''" for msg x
    by (simp add: onSendResponse_def)
  with assms show ?thesis
    unfolding onEventAuthRequired_def Let_def by (elim bindP_ReturnedE) simp
next
  case (Some c)
  then have "onSendResponse E False msg (w\<lparr>token3 := x\<rparr>) =
     Returned (if broken c then (Some WriteError, w\<lparr>token3 := x\<rparr>)
               else (None, w\<lparr>token3 := x, currentConnection :=
                        Some (c\<lparr>frames := frames c @ [json_Marshal E (IMap msg)]\<rparr>)\<rparr>))" for msg x
    using onSendResponse_plain [of "w\<lparr>token3 := x\<rparr>" c E msg] by simp
  with assms Some show ?thesis
    unfolding onEventAuthRequired_def Let_def
    by (elim bindP_ReturnedE) (auto split: if_splits)
qed

lemma updateStatus_keeps:
  "updateStatus w m = Inr w1 \<Longrightarrow>
   isInitialized w1 = isInitialized w \<and> currentConnection w1 = currentConnection w"
  by (auto simp add: updateStatus_def split: sum.splits)

lemma onEventDeltaStatus_keeps:
  "onEventDeltaStatus E w m = Returned (w', evs) \<Longrightarrow>
   isInitialized w' = isInitialized w \<and> currentConnection w' = currentConnection w"
  by (auto simp add: onEventDeltaStatus_def bindP_Returned dest: updateStatus_keeps)

lemma onEventFullStatus_flag:
  "onEventFullStatus E w m = Returned (w', evs) \<Longrightarrow>
   currentConnection w' = currentConnection w \<and>
   (isInitialized w' = (isInitialized w \<or> map_of m ''partial'' = Some (IBool False)))"
  by (cases "map_of m ''partial''" rule: asBool.cases)
     (auto simp add: onEventFullStatus_def bindP_Returned IsInitialized_def
       dest: updateStatus_keeps split: if_splits)

lemma onEventResponse_keeps: "onEventResponse E w m = Returned (w', evs) \<Longrightarrow> w' = w"
  by (auto simp add: onEventResponse_def bindP_Returned Let_def split: if_splits)

lemma onEventAuthSuccess_keeps: "onEventAuthSuccess E w m = Returned (w', evs) \<Longrightarrow> w' = w"
  by (auto simp add: onEventAuthSuccess_def split: if_splits)

lemma onEventAuthError_keeps: "onEventAuthError E w m = Returned (w', evs) \<Longrightarrow> w' = w"
  by (auto simp add: onEventAuthError_def split: if_splits)

text \<open>
  A frame that is handled without a panic is skipped or goes to the handler of its type.
\<close>

lemma receiveHandler_cases:
  assumes "receiveHandler E w m = Returned (w', evs)"
  shows "w' = w \<or>
         (\<exists>t h. map_of m ''type'' = Some (IStr t) \<and> eventHandler t = Some h \<and>
                h E w m = Returned (w', evs))"
proof (cases "map_of m ''type''")
  case None
  with assms show ?thesis by (simp add: receiveHandler_def)
next
  case (Some ty)
  show ?thesis
  proof (cases ty)
    case (IStr t)
    with Some assms show ?thesis
      by (cases "eventHandler t") (simp_all add: receiveHandler_def)
  qed (use Some assms in \<open>simp_all add: receiveHandler_def\<close>)
qed

text \<open>
  So the flag goes from false to true on two messages only: a \<^verbatim>\<open>fullStatus\<close> that is not
  partial, and an \<^verbatim>\<open>authRequired\<close> whose answer could not be written.
\<close>

lemma initialized_set_only_by:
  assumes run: "receiveHandler E w m = Returned (w', evs)"
    and before: "\<not> isInitialized w" and after: "isInitialized w'"
  shows "(map_of m ''type'' = Some (IStr ''fullStatus'') \<and>
          map_of m ''partial'' = Some (IBool False)) \<or>
         (map_of m ''type'' = Some (IStr ''authRequired'') \<and>
          (\<exists>c. currentConnection w = Some c \<and> broken c))"
proof -
  from receiveHandler_cases [OF run] before after obtain t h where
    t: "map_of m ''type'' = Some (IStr t)" and h: "eventHandler t = Some h"
    and r: "h E w m = Returned (w', evs)"
    by auto
  from h consider
      "h = onEventHello" | "t = ''authRequired''" "h = onEventAuthRequired"
    | "h = onEventResponse" | "h = onEventAuthSuccess" | "h = onEventAuthError"
    | "t = ''fullStatus''" "h = onEventFullStatus" | "h = onEventDeltaStatus"
    | "h = onEventClearInverters" | "h = onEventUpdateInverter"
    by (auto simp add: eventHandler_def split: if_splits)
  then show ?thesis
  proof cases
    case 1
    with r before after show ?thesis using onEventHello_keeps by blast
  next
    case 2
    with r before after t show ?thesis using onEventAuthRequired_flag_general by blast
  next
    case 3
    with r before after show ?thesis using onEventResponse_keeps by blast
  next
    case 4
    with r before after show ?thesis using onEventAuthSuccess_keeps by blast
  next
    case 5
    with r before after show ?thesis using onEventAuthError_keeps by blast
  next
    case 6
    with r before after t show ?thesis using onEventFullStatus_flag by blast
  next
    case 7
    with r before after show ?thesis using onEventDeltaStatus_keeps by blast
  next
    case 8
    with r before after show ?thesis by (simp add: onEventClearInverters_def)
  next
    case 9
    with r before after show ?thesis by (simp add: onEventUpdateInverter_def)
  qed
qed

text \<open>
  C4 fails on the code. When the write of the auth response fails,
  \<^verbatim>\<open>onEventAuthRequired\<close> sets the initialized flag, on a session that has seen no status
  at all.
\<close>

theorem onEventAuthRequired_failed_send_initializes:
  "map_of message ''token1'' = Some (IStr t1) \<Longrightarrow>
   map_of message ''token2'' = Some (IStr t2) \<Longrightarrow>
   currentConnection w = Some c \<Longrightarrow> broken c \<Longrightarrow>
   \<exists>w'. onEventAuthRequired E w message = Returned (w', []) \<and> isInitialized w'"
  by (simp add: onEventAuthRequired_def onSendResponse_plain Let_def)

theorem onEventAuthRequired_failed_send_initializes_witness:
  "\<not> isInitialized (freshSession\<lparr>currentConnection := Some brokenConn\<rparr>) \<and>
   (\<exists>w'. receiveHandler sampleEnv (freshSession\<lparr>currentConnection := Some brokenConn\<rparr>)
            sampleAuthRequired = Returned (w', []) \<and> isInitialized w')"
  using onEventAuthRequired_failed_send_initializes
    [of sampleAuthRequired "''t1''" "''t2''"
        "freshSession\<lparr>currentConnection := Some brokenConn\<rparr>" brokenConn sampleEnv]
  by (simp add: receiveHandler_def eventHandler_def sampleAuthRequired_def brokenConn_def
      freshSession_def New_def)

section \<open>Teardown\<close>

text \<open>
  An initialized session holds its connection: the handlers run on a session that has
  one and keep it, and the teardown clears flag and connection together.
\<close>

lemma receiveHandler_keeps_connection:
  assumes run: "receiveHandler E w m = Returned (w', evs)"
    and conn: "currentConnection w \<noteq> None"
  shows "currentConnection w' \<noteq> None"
proof -
  from receiveHandler_cases [OF run] consider "w' = w"
    | t h where "eventHandler t = Some h" "h E w m = Returned (w', evs)"
    by blast
  then show ?thesis
  proof cases
    case 1
    with conn show ?thesis by simp
  next
    case 2
    from 2(1) consider
        "h = onEventHello" | "h = onEventAuthRequired" | "h = onEventResponse"
      | "h = onEventAuthSuccess" | "h = onEventAuthError" | "h = onEventFullStatus"
      | "h = onEventDeltaStatus" | "h = onEventClearInverters" | "h = onEventUpdateInverter"
      by (auto simp add: eventHandler_def split: if_splits)
    then show ?thesis
    proof cases
      case 1
      with 2(2) conn show ?thesis using onEventHello_keeps by metis
    next
      case 2
      with \<open>h E w m = Returned (w', evs)\<close> show ?thesis
        using onEventAuthRequired_flag_general by blast
    next
      case 3
      with 2(2) conn show ?thesis using onEventResponse_keeps by blast
    next
      case 4
      with 2(2) conn show ?thesis using onEventAuthSuccess_keeps by blast
    next
      case 5
      with 2(2) conn show ?thesis using onEventAuthError_keeps by blast
    next
      case 6
      with 2(2) conn show ?thesis using onEventFullStatus_flag by metis
    next
      case 7
      with 2(2) conn show ?thesis using onEventDeltaStatus_keeps by metis
    next
      case 8
      with 2(2) conn show ?thesis by (simp add: onEventClearInverters_def)
    next
      case 9
      with 2(2) conn show ?thesis by (simp add: onEventUpdateInverter_def)
    qed
  qed
qed

lemma disconnectImpl_keeps_invariant:
  "disconnectImpl w = Returned w' \<Longrightarrow> isInitialized w' \<longrightarrow> currentConnection w' \<noteq> None"
  by (auto simp add: disconnectImpl_def split: if_splits option.splits)

text \<open>
  C5, as amended. An initialized session that holds its connection loses its status
  store, its two flags and its connection, and keeps everything else: session key, nonce,
  device identity, host, secret and request-id counter. A session that is not initialized
  is returned as it is.
\<close>

theorem disconnectImpl_frame:
  "(\<not> isInitialized w \<longrightarrow> disconnectImpl w = Returned w) \<and>
   (isInitialized w \<and> currentConnection w = Some c \<longrightarrow>
      (\<exists>w'. disconnectImpl w = Returned w' \<and>
            status w' = Map.empty \<and> \<not> isConnected w' \<and> \<not> isInitialized w' \<and>
            currentConnection w' = None \<and>
            hashedpassword w' = hashedpassword w \<and> token3 w' = token3 w \<and>
            name w' = name w \<and> hostname w' = hostname w \<and> serial w' = serial w \<and>
            version w' = version w \<and> manufacturer w' = manufacturer w \<and>
            devicetype w' = devicetype w \<and> protocol w' = protocol w \<and>
            secured w' = secured w \<and> host w' = host w \<and> password w' = password w \<and>
            requestId w' = requestId w))"
  by (simp add: disconnectImpl_def)

theorem disconnectImpl_frame_witness:
  "disconnectImpl connectedSession = Returned connectedSession \<and>
   (\<exists>w'. disconnectImpl initializedSession = Returned w' \<and>
         status w' = Map.empty \<and> \<not> isConnected w' \<and> \<not> isInitialized w' \<and>
         hashedpassword w' = ''a2tra2tra2tra2tra2tra2tra2tra2tr'' \<and> serial w' = ''S1'' \<and>
         requestId w' = 0)"
  using disconnectImpl_frame [of connectedSession sampleConn]
        disconnectImpl_frame [of initializedSession sampleConn]
  by (auto simp add: connectedSession_def initializedSession_def freshSession_def New_def)

text \<open>
  C5 as stated fails twice. A session that is connected but not yet initialized keeps
  its connected flag and its status store; an initialized session keeps its session key
  and its device identity.
\<close>

theorem disconnectImpl_counterexample:
  "disconnectImpl connectedSession = Returned connectedSession \<and>
   isConnected connectedSession \<and>
   status connectedSession ''amp'' = Some (IFloat float_6) \<and>
   disconnectImpl initializedSession = Returned tornDownSession \<and>
   hashedpassword tornDownSession = ''a2tra2tra2tra2tra2tra2tra2tra2tr'' \<and>
   serial tornDownSession = ''S1'' \<and> name tornDownSession = ''garage''"
  by (simp add: disconnectImpl_def tornDownSession_def connectedSession_def
      initializedSession_def freshSession_def New_def sampleStatus_def)

text \<open>
  C10. \<^verbatim>\<open>Disconnect\<close> returns only if a value arrives on the interrupt channel. Whenever
  the teardown itself completes (an initialized session holds its connection), the
  connected flag is cleared, the teardown is the internal one, and without an interrupt
  the call stays blocked on that channel.
\<close>

theorem Disconnect_waits_for_interrupt:
  "(\<forall>w'. Disconnect E w = Returned w' \<longrightarrow> partner E ChInterrupt) \<and>
   ((isInitialized w \<longrightarrow> currentConnection w \<noteq> None) \<longrightarrow>
      (\<exists>w'. disconnectImpl (w\<lparr>isConnected := False\<rparr>) = Returned w' \<and> \<not> isConnected w' \<and>
            Disconnect E w =
              (if partner E ChInterrupt then Returned w' else Blocked ChInterrupt w')))"
  by (auto simp add: Disconnect_def disconnectImpl_def split: outcome.splits option.splits)

theorem Disconnect_waits_for_interrupt_witness:
  "(\<exists>w'. Disconnect quietEnv initializedSession = Blocked ChInterrupt w' \<and>
         \<not> isConnected w') \<and>
   (\<exists>w'. Disconnect sampleEnv initializedSession = Returned w' \<and> \<not> isConnected w')"
  using Disconnect_waits_for_interrupt [of quietEnv initializedSession]
        Disconnect_waits_for_interrupt [of sampleEnv initializedSession]
  by (auto simp add: quietEnv_def sampleEnv_def initializedSession_def connectedSession_def
      freshSession_def)

section \<open>Property access\<close>

text \<open>
  C7, as amended. \<^verbatim>\<open>GetProperty\<close> fails with \<open>NotReady\<close> on a session that is not
  initialized, whatever the name. On an initialized session a name without a
  post-processing entry is resolved through the alias table, and the stored value is
  returned as it is; a name with a post-processing entry is looked up under that entry's
  own wire key, whatever the alias table says, and the entry's transform is applied to the
  stored value. In both cases the call fails with \<open>NotFound\<close> exactly when the key it
  looks up is absent from the store.
\<close>

theorem GetProperty_lookup:
  "(\<not> isInitialized w \<longrightarrow> GetProperty G w nm = Inl (NotReady ''connection is not valid'')) \<and>
   (isInitialized w \<and> PostProcess G nm = None \<longrightarrow>
      GetProperty G w nm =
        (case status w (resolveAlias G nm) of
           None \<Rightarrow> Inl (NotFound (''could not find value of '' @ resolveAlias G nm))
         | Some x \<Rightarrow> Inr x)) \<and>
   (isInitialized w \<and> PostProcess G nm = Some m \<longrightarrow>
      GetProperty G w nm =
        (case status w (pkey m) of
           None \<Rightarrow> Inl (NotFound (''could not find value of '' @ pkey m))
         | Some x \<Rightarrow> Inr (fst (pf m x))))"
  by (simp add: GetProperty_def resolveAlias_def hasKey_def Let_def split: option.splits)

theorem GetProperty_lookup_witness:
  "GetProperty sampleTables connectedSession ''amp'' = Inl (NotReady ''connection is not valid'') \<and>
   GetProperty sampleTables initializedSession ''amp'' = Inr (IFloat float_6) \<and>
   GetProperty sampleTables initializedSession ''power'' = Inr (ISlice [IFloat float_2]) \<and>
   GetProperty sampleTables initializedSession ''car'' =
     Inl (NotFound ''could not find value of car'') \<and>
   GetProperty sampleTables initializedSession ''voltage1'' = Inr (IFloat float_2)"
  using GetProperty_lookup [of connectedSession sampleTables "''amp''"]
        GetProperty_lookup [of initializedSession sampleTables "''amp''"]
        GetProperty_lookup [of initializedSession sampleTables "''power''"]
        GetProperty_lookup [of initializedSession sampleTables "''car''"]
        GetProperty_lookup [of initializedSession sampleTables "''voltage1''"
                               "PostFn ''nrg'' (\<lambda>v. (case v of ISlice (x # xs) \<Rightarrow> x | _ \<Rightarrow> INil, None))"]
  by (simp add: sampleTables_def resolveAlias_def initializedSession_def connectedSession_def
      freshSession_def New_def sampleStatus_def)

text \<open>
  C7 as stated fails on a name with a post-processing entry. The name \<^verbatim>\<open>voltage1\<close> is no
  alias, so the alias table resolves it to itself, a key that is absent from the store;
  the call does not fail with \<open>NotFound\<close> but reads the entry's wire key \<^verbatim>\<open>nrg\<close> and
  returns the transformed value.
\<close>

theorem GetProperty_counterexample:
  "isInitialized initializedSession \<and>
   resolveAlias sampleTables ''voltage1'' = ''voltage1'' \<and>
   status initializedSession (resolveAlias sampleTables ''voltage1'') = None \<and>
   GetProperty sampleTables initializedSession ''voltage1'' = Inr (IFloat float_2)"
  by (simp add: GetProperty_def hasKey_def resolveAlias_def sampleTables_def
      initializedSession_def connectedSession_def freshSession_def New_def sampleStatus_def)

text \<open>
  C6, as amended. \<^verbatim>\<open>SetProperty\<close> fails with \<open>NotReady\<close> on a session that is not
  initialized. On an initialized session it fails with \<open>NotFound\<close> exactly when the name
  itself, taken as the wire key, is absent from the status store. Once a status batch
  that contains the name has been handled, as a \<^verbatim>\<open>deltaStatus\<close> or as a \<^verbatim>\<open>fullStatus\<close>,
  the call passes that test and returns what the write of the command returns: no error
  on a working connection, the write error on a broken one.
\<close>

theorem SetProperty_write_after_observe:
  "(\<not> isInitialized w \<longrightarrow>
      SetProperty E nm v w = Returned (Some (NotReady ''Connection is not valid''), w)) \<and>
   (isInitialized w \<longrightarrow>
      (SetProperty E nm v w =
         Returned (Some (NotFound (''Could not find reference for update on '' @ nm)), w))
      = (status w nm = None)) \<and>
   (isInitialized w \<and> currentConnection w = Some c \<and>
    map_of message ''status'' = Some (IMap batch) \<and> nm \<in> fst ` set batch \<longrightarrow>
      (\<exists>w1 w2. onEventDeltaStatus E w message = Returned (w1, []) \<and>
          (\<forall>p. map_of message ''partial'' = Some (IBool p) \<longrightarrow>
                onEventFullStatus E w message = Returned (w1, [])) \<and>
          SetProperty E nm v w1 =
            Returned (if broken c then Some WriteError else None, w2)))"
proof (intro conjI impI)
  assume "\<not> isInitialized w"
  then show "SetProperty E nm v w = Returned (Some (NotReady ''Connection is not valid''), w)"
    by (simp add: SetProperty_def)
next
  assume init: "isInitialized w"
  show "(SetProperty E nm v w =
           Returned (Some (NotFound (''Could not find reference for update on '' @ nm)), w))
        = (status w nm = None)"
  proof (cases "status w nm")
    case None
    with init show ?thesis by (simp add: SetProperty_def hasKey_def)
  next
    case (Some x)
    show ?thesis
    proof (cases "currentConnection w")
      case None
      with init Some show ?thesis
        by (simp add: SetProperty_def hasKey_def sendUpdate_def getRequestId_def
            onSendResponse_def Let_def split: sum.splits)
    next
      case (Some c')
      from sendUpdate_result [OF Some, of E nm v] obtain w' where
        "sendUpdate E nm v w = Returned (if broken c' then Some WriteError else None, w')"
        by blast
      with init \<open>status w nm = Some x\<close> show ?thesis
        by (simp add: SetProperty_def hasKey_def)
    qed
  qed
next
  assume a: "isInitialized w \<and> currentConnection w = Some c \<and>
    map_of message ''status'' = Some (IMap batch) \<and> nm \<in> fst ` set batch"
  then obtain w1 where w1: "updateStatus w message = Inr w1"
      "dom (status w1) = dom (status w) \<union> fst ` set batch"
      "isInitialized w1 = isInitialized w" "currentConnection w1 = currentConnection w"
    using updateStatus_observes [of message batch w] by blast
  from a w1 have seen: "status w1 nm \<noteq> None" by blast
  from a w1 obtain w2 where
    "sendUpdate E nm v w1 = Returned (if broken c then Some WriteError else None, w2)"
    using sendUpdate_result [of w1 c E nm v] by auto
  with a w1 seen show "\<exists>w1 w2. onEventDeltaStatus E w message = Returned (w1, []) \<and>
          (\<forall>p. map_of message ''partial'' = Some (IBool p) \<longrightarrow>
                onEventFullStatus E w message = Returned (w1, [])) \<and>
          SetProperty E nm v w1 = Returned (if broken c then Some WriteError else None, w2)"
    by (simp add: onEventDeltaStatus_def onEventFullStatus_def IsInitialized_def
        SetProperty_def hasKey_def)
qed

theorem SetProperty_write_after_observe_witness:
  "SetProperty sampleEnv ''fna'' (IStr ''carport'') connectedSession =
     Returned (Some (NotReady ''Connection is not valid''), connectedSession) \<and>
   SetProperty sampleEnv ''fna'' (IStr ''carport'') initializedSession =
     Returned (Some (NotFound ''Could not find reference for update on fna''),
               initializedSession) \<and>
   (\<exists>w1 evs w2. onEventDeltaStatus sampleEnv initializedSession sampleDelta = Returned (w1, evs) \<and>
       SetProperty sampleEnv ''fna'' (IStr ''carport'') w1 = Returned (None, w2))"
  using SetProperty_write_after_observe
          [of connectedSession sampleEnv "''fna''" "IStr ''carport''"]
        SetProperty_write_after_observe
          [of initializedSession sampleEnv "''fna''" "IStr ''carport''" sampleConn sampleDelta
              "[(''fna'', IStr ''garage'')]"]
  by (auto simp add: initializedSession_def connectedSession_def freshSession_def New_def
      sampleStatus_def sampleDelta_def sampleConn_def)

text \<open>
  C6 as stated fails twice. The alias \<^verbatim>\<open>power\<close> resolves to the wire key \<^verbatim>\<open>nrg\<close>, which is
  in the store, and \<^verbatim>\<open>SetProperty\<close> still fails with \<open>NotFound\<close>, since it never consults
  the alias table. And a property that has been observed cannot be set over a broken
  connection: the call returns the write error.
\<close>

theorem SetProperty_counterexample:
  "isInitialized initializedSession \<and>
   status initializedSession (resolveAlias sampleTables ''power'') \<noteq> None \<and>
   SetProperty sampleEnv ''power'' (IInt 6) initializedSession =
     Returned (Some (NotFound ''Could not find reference for update on power''),
               initializedSession) \<and>
   status initializedSession ''amp'' \<noteq> None \<and>
   SetProperty sampleEnv ''amp'' (IInt 6)
       (initializedSession\<lparr>currentConnection := Some brokenConn\<rparr>) =
     Returned (Some WriteError,
               initializedSession\<lparr>requestId := 1, currentConnection := Some brokenConn\<rparr>)"
  by (simp add: SetProperty_def hasKey_def sendUpdate_def getRequestId_def onSendResponse_def
      WriteClientMessage_def resolveAlias_def sampleTables_def initializedSession_def
      connectedSession_def freshSession_def New_def sampleStatus_def brokenConn_def)

section \<open>Value coercion\<close>

text \<open>
  C8, as amended. An input that already is an \<^verbatim>\<open>int\<close>, an \<^verbatim>\<open>int64\<close> or a \<^verbatim>\<open>float64\<close> is
  sent unchanged. Every other input is printed and coerced in the order integer, boolean,
  floating point, string; for an \<^verbatim>\<open>int\<close> and an \<^verbatim>\<open>int64\<close> this coercion would give the
  same integer. So the string \<^verbatim>\<open>6\<close> becomes the integer 6 and the string \<^verbatim>\<open>true\<close> the
  boolean. The result is the value field of the \<^verbatim>\<open>setValue\<close> command.
\<close>

theorem transformValue_priority:
  "((\<forall>i. v \<noteq> IInt64 i) \<and> (\<forall>x. v \<noteq> IFloat x) \<longrightarrow>
      transformValue E v = coerce E (Sprintf_v E v)) \<and>
   transformValue E (IInt i) = IInt i \<and>
   transformValue E (IInt64 i) = IInt64 i \<and> coerce E (Sprintf_v E (IInt64 i)) = IInt i \<and>
   transformValue E (IFloat x) = IFloat x \<and>
   transformValue E (IStr ''6'') = IInt 6 \<and>
   transformValue E (IStr ''true'') = IBool True \<and>
   sendUpdate E nm v w =
     onSendResponse E (secured w)
       [(''type'', IStr ''setValue''), (''requestId'', IInt64 (requestId w + 1)),
        (''key'', IStr nm), (''value'', transformValue E v)]
       (w\<lparr>requestId := requestId w + 1\<rparr>)"
proof (intro conjI impI)
  assume "(\<forall>i. v \<noteq> IInt64 i) \<and> (\<forall>x. v \<noteq> IFloat x)"
  then show "transformValue E v = coerce E (Sprintf_v E v)"
    by (cases v) (simp_all add: coerce_def Atoi_FormatInt_sint Let_def)
next
  show "transformValue E (IInt i) = IInt i" by simp
  show "transformValue E (IInt64 i) = IInt64 i" by simp
  show "coerce E (Sprintf_v E (IInt64 i)) = IInt i" by (simp add: coerce_def Atoi_FormatInt_sint)
  show "transformValue E (IFloat x) = IFloat x" by simp
  show "transformValue E (IStr ''6'') = IInt 6" by (simp add: Atoi_six Let_def)
  show "transformValue E (IStr ''true'') = IBool True" by (simp add: ParseBool_true Let_def)
  show "sendUpdate E nm v w =
     onSendResponse E (secured w)
       [(''type'', IStr ''setValue''), (''requestId'', IInt64 (requestId w + 1)),
        (''key'', IStr nm), (''value'', transformValue E v)]
       (w\<lparr>requestId := requestId w + 1\<rparr>)"
    by (simp add: sendUpdate_def getRequestId_def)
qed

lemma coerce_samples:
  "coerce sampleEnv ''6.5'' = IFloat float_6_5 \<and> coerce sampleEnv ''six'' = IStr ''six'' \<and>
   coerce sampleEnv ''<nil>'' = IStr ''<nil>''"
  by (simp add: coerce_def Atoi_def ParseBool_def isDigit_def sampleEnv_def)

theorem transformValue_priority_witness:
  "transformValue sampleEnv (IStr ''6.5'') = IFloat float_6_5 \<and>
   transformValue sampleEnv (IStr ''six'') = IStr ''six'' \<and>
   transformValue sampleEnv INil = IStr ''<nil>''"
  using transformValue_priority [of "IStr ''6.5''" sampleEnv, THEN conjunct1]
        transformValue_priority [of "IStr ''six''" sampleEnv, THEN conjunct1]
        transformValue_priority [of INil sampleEnv, THEN conjunct1]
  by (simp add: coerce_samples)

text \<open>
  C8 as stated fails on a \<^verbatim>\<open>float64\<close> input: the float \<^verbatim>\<open>6.0\<close> prints as \<^verbatim>\<open>6\<close>, which the
  coercion would turn into the integer 6, and the code sends the float as it is.
\<close>

theorem transformValue_counterexample:
  "Sprintf_v sampleEnv (IFloat float_6) = ''6'' \<and>
   coerce sampleEnv (Sprintf_v sampleEnv (IFloat float_6)) = IInt 6 \<and>
   transformValue sampleEnv (IFloat float_6) = IFloat float_6"
  by (simp add: coerce_def Atoi_six sampleEnv_def)

section \<open>The secure envelope\<close>





end
